theory Spec2Isabelle
  imports Complex_Main "HOL-Library.Word"
begin

section \<open>The simulation archive of rebound (simulationarchive.c)\<close>

text \<open>
  A shallow embedding of \<^verbatim>\<open>src/simulationarchive.c\<close>: the blob size
  calculator, the heartbeat writer, the blob loader and the restart routine (the size
  estimator is left out).

  Conventions of the embedding.
  \<^item> A C \<^verbatim>\<open>double\<close> is a \<open>real\<close>; the source adds doubles, compares them
    with \<open>\<le>\<close> and with 0, and divides by \<open>1e6\<close>. Its eight bytes in a file are
    produced and read back by a pair of functions \<open>enc\<close> and \<open>dec\<close> that every I/O
    function takes as arguments.
  \<^item> \<^verbatim>\<open>rebound.h\<close> is not among the sources. The fields used here have the
    types \<^verbatim>\<open>int N\<close>, \<^verbatim>\<open>long simulationarchive_seek_first\<close>,
    \<^verbatim>\<open>long simulationarchive_seek_blob\<close>; they are \<open>int\<close> in the model, and the
    conversions that the source performs on them are written out (\<open>to_size_t\<close>,
    \<open>to_int\<close>) for an LP64 platform: 32-bit \<^verbatim>\<open>int\<close>, 64-bit \<^verbatim>\<open>size_t\<close>,
    \<^verbatim>\<open>sizeof(double) = 8\<close>.
  \<^item> A C array is a list, a null pointer the empty list. Reading or writing an array
    beyond its allocation is undefined in C; the model reads an unspecified value and
    drops the write, and the theorems assume the arrays hold at least \<open>N\<close> elements
    wherever that matters.
  \<^item> The offset of a record is computed in \<^verbatim>\<open>long\<close>, where overflow is undefined
    in C; the model computes it in \<open>int\<close>.
  \<^item> The file system is a map from file names to byte sequences.
  \<^item> Every function that mutates the simulation returns the new simulation.
\<close>

subsection \<open>Data model\<close>

type_synonym byte = "8 word"

type_synonym filesystem = "string \<rightharpoonup> byte list"

record reb_particle =
  x :: real
  y :: real
  z :: real
  vx :: real
  vy :: real
  vz :: real
  m :: real

datatype reb_integrator =
  REB_INTEGRATOR_IAS15
  | REB_INTEGRATOR_WHFAST
  | REB_INTEGRATOR_OTHER int

datatype reb_gravity =
  REB_GRAVITY_NONE
  | REB_GRAVITY_BASIC
  | REB_GRAVITY_OTHER int

record timeval =
  tv_sec :: int
  tv_usec :: int

record reb_simulation_integrator_whfast =
  safe_mode :: int
  allocated_N :: int
  p_j :: "reb_particle list"
  eta :: "real list"
  is_synchronized :: int

record reb_dp7 =
  p0 :: "real list"
  p1 :: "real list"
  p2 :: "real list"
  p3 :: "real list"
  p4 :: "real list"
  p5 :: "real list"
  p6 :: "real list"

record reb_simulation_integrator_ias15 =
  b :: reb_dp7
  csb :: reb_dp7
  e :: reb_dp7
  br :: reb_dp7
  er :: reb_dp7
  csx :: "real list"
  csv :: "real list"

datatype reb_message_kind = REB_MESSAGE_ERROR | REB_MESSAGE_WARNING

record reb_simulation =
  t :: real
  dt :: real
  dt_last_done :: real
  N :: int
  integrator :: reb_integrator
  gravity :: reb_gravity
  particles :: "reb_particle list"
  ri_whfast :: reb_simulation_integrator_whfast
  ri_ias15 :: reb_simulation_integrator_ias15
  simulationarchive_filename :: string
  simulationarchive_interval :: real
  simulationarchive_next :: real
  simulationarchive_walltime :: real
  simulationarchive_time :: timeval
  simulationarchive_seek_first :: int
  simulationarchive_seek_blob :: int
  messages :: "(reb_message_kind \<times> string) list"

subsection \<open>Collaborators that are not among the sources\<close>

text \<open>
  Modelled from the spec: \<^verbatim>\<open>reb_error\<close> (tools.c) feeds the "error/warning
  reporting sink" of the simulation state. It records the message and returns to the
  caller.
\<close>

definition reb_error :: "reb_simulation \<Rightarrow> string \<Rightarrow> reb_simulation" where
  "reb_error r msg = r\<lparr>messages := messages r @ [(REB_MESSAGE_ERROR, msg)]\<rparr>"

text \<open>
  Modelled from the spec: \<^verbatim>\<open>reb_output_binary\<close> (output.c), the external
  full-state exporter. Spec 4.2: "write the header record via the external full-state
  exporter; record \<^verbatim>\<open>seek_first\<close> as the resulting file length". The format of
  the header is opaque: \<open>hdr\<close> gives its bytes.
\<close>

definition reb_output_binary ::
  "(reb_simulation \<Rightarrow> byte list) \<Rightarrow> reb_simulation \<Rightarrow> filesystem \<Rightarrow> string
    \<Rightarrow> reb_simulation \<times> filesystem" where
  "reb_output_binary hdr r fs filename =
     (let bytes = hdr r
      in (r\<lparr>simulationarchive_seek_first := int (length bytes)\<rparr>, fs(filename \<mapsto> bytes)))"

text \<open>\<^verbatim>\<open>fwrite\<close> of the first \<open>n\<close> doubles of an array.\<close>

definition fwrite_doubles :: "(real \<Rightarrow> byte list) \<Rightarrow> real list \<Rightarrow> nat \<Rightarrow> byte list" where
  "fwrite_doubles enc arr n = concat (map (\<lambda>i. enc (arr ! i)) [0..<n])"

text \<open>
  Modelled from the spec: \<^verbatim>\<open>reb_save_dp7\<close> (output.c) writes one auxiliary
  table, "seven component arrays of length \<open>3 N\<close>", array after array.
\<close>

definition reb_save_dp7 :: "(real \<Rightarrow> byte list) \<Rightarrow> reb_dp7 \<Rightarrow> nat \<Rightarrow> byte list" where
  "reb_save_dp7 enc dp7 N3 =
     fwrite_doubles enc (p0 dp7) N3 @ fwrite_doubles enc (p1 dp7) N3 @
     fwrite_doubles enc (p2 dp7) N3 @ fwrite_doubles enc (p3 dp7) N3 @
     fwrite_doubles enc (p4 dp7) N3 @ fwrite_doubles enc (p5 dp7) N3 @
     fwrite_doubles enc (p6 dp7) N3"

subsection \<open>C integer conversions\<close>

definition sizeof_double :: int where
  "sizeof_double = 8"

text \<open>Conversion to \<^verbatim>\<open>size_t\<close> (unsigned, 64 bits) and to \<^verbatim>\<open>int\<close> (signed, 32 bits).\<close>

definition to_size_t :: "int \<Rightarrow> int" where
  "to_size_t v = v mod 2 ^ 64"

definition to_int :: "int \<Rightarrow> int" where
  "to_int v = (v + 2 ^ 31) mod 2 ^ 32 - 2 ^ 31"

subsection \<open>The blob size calculator\<close>

text \<open>
  \<^verbatim>\<open>static int reb_simulationarchive_blobsize(struct reb_simulation* const r)\<close>.
  The sum is computed in \<^verbatim>\<open>size_t\<close> (\<^verbatim>\<open>sizeof\<close> is a \<^verbatim>\<open>size_t\<close>, and
  \<^verbatim>\<open>r->N\<close> is converted to it) and assigned to the \<^verbatim>\<open>int seek_blob\<close>.
\<close>

definition reb_simulationarchive_blobsize :: "reb_simulation \<Rightarrow> int \<times> reb_simulation" where
  "reb_simulationarchive_blobsize r =
     (case integrator r of
        REB_INTEGRATOR_WHFAST \<Rightarrow>
          (to_int (to_size_t (sizeof_double * 2 + sizeof_double * 7 * N r)), r)
      | REB_INTEGRATOR_IAS15 \<Rightarrow>
          (to_int (to_size_t (sizeof_double * 4
                              + sizeof_double * 3 * N r * 5 * 7
                              + sizeof_double * 7 * N r
                              + sizeof_double * 3 * N r * 2)), r)
      | REB_INTEGRATOR_OTHER k \<Rightarrow>
          (0, reb_error r ''Simulation archive not implemented for this integrator.''))"

subsection \<open>The heartbeat writer\<close>

text \<open>The seven doubles of particle \<open>i\<close> in the order the source writes them.\<close>

definition particle_bytes ::
  "(real \<Rightarrow> byte list) \<Rightarrow> reb_particle list \<Rightarrow> reb_particle list \<Rightarrow> nat \<Rightarrow> byte list" where
  "particle_bytes enc parts ps i =
     enc (m (parts ! i)) @ enc (x (ps ! i)) @ enc (y (ps ! i)) @ enc (z (ps ! i)) @
     enc (vx (ps ! i)) @ enc (vy (ps ! i)) @ enc (vz (ps ! i))"

text \<open>
  The integrator-specific part of a record (the \<^verbatim>\<open>switch\<close> of lines 221 to 266),
  with the simulation after the call of \<^verbatim>\<open>reb_error\<close> in the default case.
\<close>

definition heartbeat_payload ::
  "(real \<Rightarrow> byte list) \<Rightarrow> reb_simulation \<Rightarrow> byte list \<times> reb_simulation" where
  "heartbeat_payload enc r =
     (case integrator r of
        REB_INTEGRATOR_WHFAST \<Rightarrow>
          (let ps = (if safe_mode (ri_whfast r) = 0 then p_j (ri_whfast r) else particles r)
           in (concat (map (particle_bytes enc (particles r) ps) [0..<nat (N r)]), r))
      | REB_INTEGRATOR_IAS15 \<Rightarrow>
          (let ps = particles r;
               N3 = nat (N r * 3)
           in (enc (dt r) @ enc (dt_last_done r) @
               concat (map (particle_bytes enc ps ps) [0..<nat (N r)]) @
               reb_save_dp7 enc (b (ri_ias15 r)) N3 @
               reb_save_dp7 enc (csb (ri_ias15 r)) N3 @
               reb_save_dp7 enc (e (ri_ias15 r)) N3 @
               reb_save_dp7 enc (br (ri_ias15 r)) N3 @
               reb_save_dp7 enc (er (ri_ias15 r)) N3 @
               fwrite_doubles enc (csx (ri_ias15 r)) N3 @
               fwrite_doubles enc (csv (ri_ias15 r)) N3, r))
      | REB_INTEGRATOR_OTHER k \<Rightarrow>
          ([], reb_error r ''Simulation archive not implemented for this integrator.''))"

text \<open>\<^verbatim>\<open>fopen(filename, "a")\<close>, the writes, \<^verbatim>\<open>fclose\<close>: the bytes go to the end of the
  file, which is created when it does not exist.\<close>

definition fappend :: "filesystem \<Rightarrow> string \<Rightarrow> byte list \<Rightarrow> filesystem" where
  "fappend fs filename bytes =
     fs(filename \<mapsto> (case fs filename of None \<Rightarrow> [] | Some old \<Rightarrow> old) @ bytes)"

text \<open>
  \<^verbatim>\<open>void reb_simulationarchive_heartbeat(struct reb_simulation* const r)\<close>;
  \<open>now\<close> is what \<^verbatim>\<open>gettimeofday\<close> returns during the call.
\<close>

definition reb_simulationarchive_heartbeat ::
  "(real \<Rightarrow> byte list) \<Rightarrow> (reb_simulation \<Rightarrow> byte list) \<Rightarrow> timeval
    \<Rightarrow> reb_simulation \<Rightarrow> filesystem \<Rightarrow> reb_simulation \<times> filesystem" where
  "reb_simulationarchive_heartbeat enc hdr now r fs =
     (if t r = 0 then
        (let (blob, r1) = reb_simulationarchive_blobsize r;
             r2 = r1\<lparr>simulationarchive_seek_blob := blob\<rparr>;
             r3 = (case gravity r2 of
                     REB_GRAVITY_BASIC \<Rightarrow> r2
                   | REB_GRAVITY_NONE \<Rightarrow> r2
                   | REB_GRAVITY_OTHER k \<Rightarrow>
                       reb_error r2 ''Simulation archive not implemented for this gravity module.'');
             r4 = r3\<lparr>simulationarchive_next :=
                       simulationarchive_next r3 + simulationarchive_interval r3\<rparr>;
             r5 = r4\<lparr>simulationarchive_walltime := 0\<rparr>;
             r6 = r5\<lparr>simulationarchive_time := now\<rparr>
         in reb_output_binary hdr r6 fs (simulationarchive_filename r6))
      else if simulationarchive_next r \<le> t r then
        (let r1 = r\<lparr>simulationarchive_next :=
                       simulationarchive_next r + simulationarchive_interval r\<rparr>;
             r2 = r1\<lparr>simulationarchive_walltime := simulationarchive_walltime r1
                       + (of_int (tv_sec now - tv_sec (simulationarchive_time r1))
                          + of_int (tv_usec now - tv_usec (simulationarchive_time r1)) / 1000000)\<rparr>;
             r3 = r2\<lparr>simulationarchive_time := now\<rparr>;
             (payload, r4) = heartbeat_payload enc r3
         in (r4, fappend fs (simulationarchive_filename r3)
                   (enc (t r3) @ enc (simulationarchive_walltime r3) @ payload)))
      else (r, fs))"

subsection \<open>Reading a file\<close>

text \<open>
  \<^verbatim>\<open>fseek\<close> as POSIX specifies it: the new position is counted from the start
  (\<^verbatim>\<open>SEEK_SET\<close>) or from the end of the file (\<^verbatim>\<open>SEEK_END\<close>); the call fails
  when that position is negative, and it succeeds for a position at or beyond the end
  of the file, where a later \<^verbatim>\<open>fread\<close> reads nothing.
\<close>

datatype whence = SEEK_SET | SEEK_END

definition fseek :: "byte list \<Rightarrow> int \<Rightarrow> whence \<Rightarrow> nat option" where
  "fseek file offset wh =
     (let pos = (case wh of SEEK_SET \<Rightarrow> offset | SEEK_END \<Rightarrow> int (length file) + offset)
      in if pos < 0 then None else Some (nat pos))"

text \<open>
  An open stream is the sequence of bytes that have not been read yet.
  \<^verbatim>\<open>fread(&v, sizeof(double), 1, fd)\<close> reads eight bytes into \<open>v\<close>; with fewer
  than eight bytes left it reads no item and reaches the end of the file (C leaves
  \<open>v\<close> indeterminate after a partial item; the model leaves it as it was).
\<close>

definition fread_double :: "(byte list \<Rightarrow> real) \<Rightarrow> byte list \<Rightarrow> real option \<times> byte list" where
  "fread_double dec s =
     (if 8 \<le> length s then (Some (dec (take 8 s)), drop 8 s) else (None, []))"

fun fread_into ::
  "(byte list \<Rightarrow> real) \<Rightarrow> (real \<Rightarrow> reb_simulation \<Rightarrow> reb_simulation)
    \<Rightarrow> reb_simulation \<times> byte list \<Rightarrow> reb_simulation \<times> byte list" where
  "fread_into dec store (r, s) =
     (case fread_double dec s of
        (Some v, s') \<Rightarrow> (store v r, s')
      | (None, s') \<Rightarrow> (r, s'))"

text \<open>\<^verbatim>\<open>fread(arr, sizeof(double), n, fd)\<close>: the items that are completely in the
  file are stored at the start of \<open>arr\<close>.\<close>

definition fread_doubles ::
  "(byte list \<Rightarrow> real) \<Rightarrow> nat \<Rightarrow> real list \<Rightarrow> byte list \<Rightarrow> real list \<times> byte list" where
  "fread_doubles dec n arr s =
     (let k = min n (length s div 8);
          vals = map (\<lambda>i. dec (take 8 (drop (8 * i) s))) [0..<k]
      in (take (length arr) vals @ drop k arr, if k = n then drop (8 * n) s else []))"

text \<open>\<^verbatim>\<open>fread(arr, sizeof(double)*n, 1, fd)\<close>: one item of \<open>8 n\<close> bytes, read
  completely or not at all.\<close>

definition fread_block ::
  "(byte list \<Rightarrow> real) \<Rightarrow> nat \<Rightarrow> real list \<Rightarrow> byte list \<Rightarrow> real list \<times> byte list" where
  "fread_block dec n arr s =
     (if 8 * n \<le> length s then fread_doubles dec n arr s else (arr, []))"

text \<open>
  Modelled from the spec: \<^verbatim>\<open>reb_read_dp7\<close> (input.c) reads one auxiliary table,
  the mirror image of \<^verbatim>\<open>reb_save_dp7\<close>.
\<close>

definition reb_read_dp7 ::
  "(byte list \<Rightarrow> real) \<Rightarrow> reb_dp7 \<Rightarrow> nat \<Rightarrow> byte list \<Rightarrow> reb_dp7 \<times> byte list" where
  "reb_read_dp7 dec dp7 N3 s =
     (let (a0, s0) = fread_doubles dec N3 (p0 dp7) s;
          (a1, s1) = fread_doubles dec N3 (p1 dp7) s0;
          (a2, s2) = fread_doubles dec N3 (p2 dp7) s1;
          (a3, s3) = fread_doubles dec N3 (p3 dp7) s2;
          (a4, s4) = fread_doubles dec N3 (p4 dp7) s3;
          (a5, s5) = fread_doubles dec N3 (p5 dp7) s4;
          (a6, s6) = fread_doubles dec N3 (p6 dp7) s5
      in (\<lparr>p0 = a0, p1 = a1, p2 = a2, p3 = a3, p4 = a4, p5 = a5, p6 = a6\<rparr>, s6))"

text \<open>
  Modelled from the spec: \<^verbatim>\<open>reb_integrator_ias15_alloc\<close> (integrator_ias15.c).
  Spec 4.4 and 9: the auxiliary tables are reallocated to match \<open>N\<close> before reading,
  "resized (reallocated, old contents discarded) whenever the stored \<open>N\<close> differs from
  the currently allocated capacity".
\<close>

definition realloc_doubles :: "nat \<Rightarrow> real list \<Rightarrow> real list" where
  "realloc_doubles n arr = (if length arr = n then arr else replicate n 0)"

definition realloc_dp7 :: "nat \<Rightarrow> reb_dp7 \<Rightarrow> reb_dp7" where
  "realloc_dp7 n dp7 =
     \<lparr>p0 = realloc_doubles n (p0 dp7), p1 = realloc_doubles n (p1 dp7),
      p2 = realloc_doubles n (p2 dp7), p3 = realloc_doubles n (p3 dp7),
      p4 = realloc_doubles n (p4 dp7), p5 = realloc_doubles n (p5 dp7),
      p6 = realloc_doubles n (p6 dp7)\<rparr>"

definition reb_integrator_ias15_alloc :: "reb_simulation \<Rightarrow> reb_simulation" where
  "reb_integrator_ias15_alloc r =
     (let n = nat (3 * N r); i = ri_ias15 r
      in r\<lparr>ri_ias15 :=
            \<lparr>b = realloc_dp7 n (b i), csb = realloc_dp7 n (csb i), e = realloc_dp7 n (e i),
             br = realloc_dp7 n (br i), er = realloc_dp7 n (er i),
             csx = realloc_doubles n (csx i), csv = realloc_doubles n (csv i)\<rparr>\<rparr>)"

subsection \<open>The blob loader\<close>

text \<open>Stores into \<^verbatim>\<open>r->particles[i]\<close> and into \<^verbatim>\<open>r->ri_whfast.p_j[i]\<close>.\<close>

definition set_particle ::
  "nat \<Rightarrow> (reb_particle \<Rightarrow> reb_particle) \<Rightarrow> reb_simulation \<Rightarrow> reb_simulation" where
  "set_particle i f r = r\<lparr>particles := (particles r)[i := f (particles r ! i)]\<rparr>"

definition set_p_j ::
  "nat \<Rightarrow> (reb_particle \<Rightarrow> reb_particle) \<Rightarrow> reb_simulation \<Rightarrow> reb_simulation" where
  "set_p_j i f r =
     r\<lparr>ri_whfast := (ri_whfast r)\<lparr>p_j := (p_j (ri_whfast r))[i := f (p_j (ri_whfast r) ! i)]\<rparr>\<rparr>"

text \<open>
  The body of the particle loops (lines 95 to 101 and 122 to 128): the mass goes to
  \<^verbatim>\<open>r->particles[i]\<close>, the six coordinates to \<^verbatim>\<open>ps[i]\<close>; \<open>ps\<close> is the store
  into the array that \<^verbatim>\<open>ps\<close> points to.
\<close>

definition read_particle ::
  "(byte list \<Rightarrow> real)
    \<Rightarrow> (nat \<Rightarrow> (reb_particle \<Rightarrow> reb_particle) \<Rightarrow> reb_simulation \<Rightarrow> reb_simulation)
    \<Rightarrow> nat \<Rightarrow> reb_simulation \<times> byte list \<Rightarrow> reb_simulation \<times> byte list" where
  "read_particle dec ps i st =
     (let st1 = fread_into dec (\<lambda>v. set_particle i (\<lambda>p. p\<lparr>m := v\<rparr>)) st;
          st2 = fread_into dec (\<lambda>v. ps i (\<lambda>p. p\<lparr>x := v\<rparr>)) st1;
          st3 = fread_into dec (\<lambda>v. ps i (\<lambda>p. p\<lparr>y := v\<rparr>)) st2;
          st4 = fread_into dec (\<lambda>v. ps i (\<lambda>p. p\<lparr>z := v\<rparr>)) st3;
          st5 = fread_into dec (\<lambda>v. ps i (\<lambda>p. p\<lparr>vx := v\<rparr>)) st4;
          st6 = fread_into dec (\<lambda>v. ps i (\<lambda>p. p\<lparr>vy := v\<rparr>)) st5
      in fread_into dec (\<lambda>v. ps i (\<lambda>p. p\<lparr>vz := v\<rparr>)) st6)"

text \<open>
  Lines 81 to 91: the Jacobi arrays are allocated anew when they are too small. The
  contents of memory from \<^verbatim>\<open>malloc\<close> are indeterminate; the model fills it with
  zeros.
\<close>

definition malloc_particle :: reb_particle where
  "malloc_particle = \<lparr>x = 0, y = 0, z = 0, vx = 0, vy = 0, vz = 0, m = 0\<rparr>"

definition whfast_allocate :: "reb_simulation \<Rightarrow> reb_simulation" where
  "whfast_allocate r =
     (if allocated_N (ri_whfast r) < N r then
        r\<lparr>ri_whfast := (ri_whfast r)
             \<lparr>p_j := replicate (nat (N r)) malloc_particle,
              eta := replicate (nat (N r)) 0,
              allocated_N := N r\<rparr>\<rparr>
      else r)"

text \<open>
  Lines 105 to 112: the Jacobi masses. The loop variable is an \<^verbatim>\<open>unsigned int\<close>,
  so \<^verbatim>\<open>r->N\<close> is converted to \<^verbatim>\<open>unsigned int\<close> in the comparison.
\<close>

definition to_unsigned :: "int \<Rightarrow> int" where
  "to_unsigned v = v mod 2 ^ 32"

definition jacobi_mass_step ::
  "reb_particle list \<Rightarrow> nat \<Rightarrow> reb_simulation_integrator_whfast
    \<Rightarrow> reb_simulation_integrator_whfast" where
  "jacobi_mass_step parts i w =
     w\<lparr>eta := (eta w)[i := eta w ! (i - 1) + m (parts ! i)],
       p_j := (p_j w)[i := (p_j w ! i)\<lparr>m := m (parts ! i)\<rparr>]\<rparr>"

definition whfast_jacobi_masses :: "reb_simulation \<Rightarrow> reb_simulation" where
  "whfast_jacobi_masses r =
     (let parts = particles r;
          w1 = (ri_whfast r)\<lparr>is_synchronized := 0\<rparr>;
          w2 = w1\<lparr>eta := (eta w1)[0 := m (parts ! 0)]\<rparr>;
          w3 = w2\<lparr>p_j := (p_j w2)[0 := (p_j w2 ! 0)\<lparr>m := m (parts ! 0)\<rparr>]\<rparr>
      in r\<lparr>ri_whfast := fold (jacobi_mass_step parts) [1..<nat (to_unsigned (N r))] w3\<rparr>)"

text \<open>The \<^verbatim>\<open>switch\<close> of lines 74 to 144.\<close>

definition load_blob_payload ::
  "(byte list \<Rightarrow> real) \<Rightarrow> reb_simulation \<Rightarrow> byte list \<Rightarrow> reb_simulation" where
  "load_blob_payload dec r s =
     (case integrator r of
        REB_INTEGRATOR_WHFAST \<Rightarrow>
          (if safe_mode (ri_whfast r) = 0 then
             (let r1 = whfast_allocate r;
                  (r2, s2) = fold (read_particle dec set_p_j) [0..<nat (N r1)] (r1, s)
              in whfast_jacobi_masses r2)
           else fst (fold (read_particle dec set_particle) [0..<nat (N r)] (r, s)))
      | REB_INTEGRATOR_IAS15 \<Rightarrow>
          (let st1 = fread_into dec (\<lambda>v q. q\<lparr>dt := v\<rparr>) (r, s);
               st2 = fread_into dec (\<lambda>v q. q\<lparr>dt_last_done := v\<rparr>) st1;
               (r3, s3) = fold (read_particle dec set_particle) [0..<nat (N r)] st2;
               r4 = reb_integrator_ias15_alloc r3;
               N3 = nat (N r4 * 3);
               (b', s5) = reb_read_dp7 dec (b (ri_ias15 r4)) N3 s3;
               (csb', s6) = reb_read_dp7 dec (csb (ri_ias15 r4)) N3 s5;
               (e', s7) = reb_read_dp7 dec (e (ri_ias15 r4)) N3 s6;
               (br', s8) = reb_read_dp7 dec (br (ri_ias15 r4)) N3 s7;
               (er', s9) = reb_read_dp7 dec (er (ri_ias15 r4)) N3 s8;
               (csx', s10) = fread_block dec N3 (csx (ri_ias15 r4)) s9;
               (csv', s11) = fread_block dec N3 (csv (ri_ias15 r4)) s10
           in r4\<lparr>ri_ias15 := \<lparr>b = b', csb = csb', e = e', br = br', er = er',
                               csx = csx', csv = csv'\<rparr>\<rparr>)
      | REB_INTEGRATOR_OTHER k \<Rightarrow>
          reb_error r ''Simulation archive not implemented for this integrator.'')"

text \<open>
  The loop of lines 71 to 73. It does not end when \<open>next \<le> t\<close> and the interval is
  not positive; then the function has no value.
\<close>

partial_function (option) catch_up_next :: "real \<Rightarrow> real \<Rightarrow> real \<Rightarrow> real option" where
  "catch_up_next nxt tm iv = (if nxt \<le> tm then catch_up_next (nxt + iv) tm iv else Some nxt)"

text \<open>Lines 68 to 144: what the loader does once the seek has worked.\<close>

definition load_blob_read ::
  "(byte list \<Rightarrow> real) \<Rightarrow> timeval \<Rightarrow> reb_simulation \<Rightarrow> byte list \<Rightarrow> reb_simulation option" where
  "load_blob_read dec now r s =
     (let (r1, s1) = fread_into dec (\<lambda>v q. q\<lparr>t := v\<rparr>) (r, s);
          (r2, s2) = fread_into dec (\<lambda>v q. q\<lparr>simulationarchive_walltime := v\<rparr>) (r1, s1);
          r3 = r2\<lparr>simulationarchive_time := now\<rparr>
      in case catch_up_next (simulationarchive_next r3) (t r3) (simulationarchive_interval r3) of
           None \<Rightarrow> None
         | Some nxt \<Rightarrow> Some (load_blob_payload dec (r3\<lparr>simulationarchive_next := nxt\<rparr>) s2))"

text \<open>Lines 55 to 62: the position the loader seeks to.\<close>

definition load_blob_seek :: "reb_simulation \<Rightarrow> byte list \<Rightarrow> int \<Rightarrow> nat option" where
  "load_blob_seek r file blob =
     (if blob < 0 then fseek file (- simulationarchive_seek_blob r) SEEK_END
      else fseek file (simulationarchive_seek_first r
                         + (blob - 1) * simulationarchive_seek_blob r) SEEK_SET)"

text \<open>
  \<^verbatim>\<open>int reb_simulationarchive_load_blob(struct reb_simulation* r, char* filename, long blob)\<close>.
  The result is the returned code and the simulation after the call; \<open>None\<close> stands
  for a call that does not return. \<open>importer\<close> is the external full-state importer
  \<^verbatim>\<open>reb_create_simulation_from_binary_with_messages\<close>; it returns the simulation
  it has filled in and whether it has raised \<^verbatim>\<open>REB_INPUT_BINARY_ERROR_NOFILE\<close>.
\<close>

definition reb_simulationarchive_load_blob ::
  "(byte list \<Rightarrow> real) \<Rightarrow> (filesystem \<Rightarrow> string \<Rightarrow> reb_simulation \<Rightarrow> reb_simulation \<times> bool)
    \<Rightarrow> timeval \<Rightarrow> filesystem \<Rightarrow> reb_simulation option \<Rightarrow> string \<Rightarrow> int
    \<Rightarrow> (int \<times> reb_simulation option) option" where
  "reb_simulationarchive_load_blob dec importer now fs ro filename blob =
     (case fs filename of
        None \<Rightarrow> Some (- 1, ro)
      | Some file \<Rightarrow>
          (case ro of
             None \<Rightarrow> Some (- 2, None)
           | Some r \<Rightarrow>
               if blob = 0 then
                 (let (r1, nofile) = importer fs filename r
                  in Some (0, Some (if nofile
                       then reb_error r1 ''Cannot read binary file. Check filename and file contents.''
                       else r1)))
               else
                 (case load_blob_seek r file blob of
                    None \<Rightarrow> Some (- 3, Some r)
                  | Some pos \<Rightarrow>
                      (case load_blob_read dec now r (drop pos file) of
                         None \<Rightarrow> None
                       | Some r' \<Rightarrow> Some (0, Some r')))))"

subsection \<open>Restart\<close>

text \<open>
  \<^verbatim>\<open>struct reb_simulation* reb_simulationarchive_restart(char* filename)\<close>;
  \<open>create\<close> is the external \<^verbatim>\<open>reb_create_simulation_from_binary\<close>, which returns a
  new simulation or a null pointer. The result is the returned pointer.
\<close>

definition reb_simulationarchive_restart ::
  "(byte list \<Rightarrow> real) \<Rightarrow> (filesystem \<Rightarrow> string \<Rightarrow> reb_simulation \<Rightarrow> reb_simulation \<times> bool)
    \<Rightarrow> (filesystem \<Rightarrow> string \<Rightarrow> reb_simulation option)
    \<Rightarrow> timeval \<Rightarrow> filesystem \<Rightarrow> string \<Rightarrow> reb_simulation option option" where
  "reb_simulationarchive_restart dec importer create now fs filename =
     (case fs filename of
        None \<Rightarrow> Some None
      | Some file \<Rightarrow>
          (case create fs filename of
             None \<Rightarrow> Some None
           | Some r \<Rightarrow>
               (case reb_simulationarchive_load_blob dec importer now fs (Some r) filename (- 1) of
                  None \<Rightarrow> None
                | Some (ret, r') \<Rightarrow>
                    Some (if ret \<noteq> 0
                          then map_option (\<lambda>q. reb_error q ''Cannot read binary file.'') r'
                          else r'))))"

subsection \<open>Well-formed simulations\<close>

text \<open>The arrays that the writer reads hold at least as many elements as it reads.\<close>

definition dp7_allocated :: "nat \<Rightarrow> reb_dp7 \<Rightarrow> bool" where
  "dp7_allocated n d =
     (n \<le> length (p0 d) \<and> n \<le> length (p1 d) \<and> n \<le> length (p2 d) \<and> n \<le> length (p3 d) \<and>
      n \<le> length (p4 d) \<and> n \<le> length (p5 d) \<and> n \<le> length (p6 d))"

definition arrays_allocated :: "reb_simulation \<Rightarrow> bool" where
  "arrays_allocated r =
     (nat (N r) \<le> length (particles r) \<and>
      (case integrator r of
         REB_INTEGRATOR_WHFAST \<Rightarrow>
           safe_mode (ri_whfast r) \<noteq> 0 \<or> nat (N r) \<le> length (p_j (ri_whfast r))
       | REB_INTEGRATOR_IAS15 \<Rightarrow>
           dp7_allocated (nat (N r * 3)) (b (ri_ias15 r)) \<and>
           dp7_allocated (nat (N r * 3)) (csb (ri_ias15 r)) \<and>
           dp7_allocated (nat (N r * 3)) (e (ri_ias15 r)) \<and>
           dp7_allocated (nat (N r * 3)) (br (ri_ias15 r)) \<and>
           dp7_allocated (nat (N r * 3)) (er (ri_ias15 r)) \<and>
           nat (N r * 3) \<le> length (csx (ri_ias15 r)) \<and>
           nat (N r * 3) \<le> length (csv (ri_ias15 r))
       | REB_INTEGRATOR_OTHER k \<Rightarrow> True))"

text \<open>The kind is one of the two supported ones, and a record (16 + 56 N bytes for the
  symplectic kind, 32 + 944 N bytes for the adaptive high-order kind) has fewer than
  \<open>2^31\<close> bytes.\<close>

definition record_fits :: "reb_simulation \<Rightarrow> bool" where
  "record_fits r =
     (0 \<le> N r \<and>
      (integrator r = REB_INTEGRATOR_WHFAST \<and> 16 + 56 * N r < 2 ^ 31 \<or>
       integrator r = REB_INTEGRATOR_IAS15 \<and> 32 + 944 * N r < 2 ^ 31))"

text \<open>An integration step that keeps the particle count, the integrator kind and the
  archive's file name and offsets, and ends at a time other than 0.\<close>

definition archive_step :: "reb_simulation \<Rightarrow> reb_simulation \<Rightarrow> bool" where
  "archive_step r r' =
     (N r' = N r \<and> integrator r' = integrator r \<and>
      simulationarchive_filename r' = simulationarchive_filename r \<and>
      simulationarchive_seek_first r' = simulationarchive_seek_first r \<and>
      simulationarchive_seek_blob r' = simulationarchive_seek_blob r \<and>
      t r' \<noteq> 0 \<and> arrays_allocated r')"


subsection \<open>The host loop\<close>

text \<open>
  The simulation calls the heartbeat once per integration step. A run is a list of
  calls; each call consists of the integration step that the host performs first and of
  the time that \<^verbatim>\<open>gettimeofday\<close> returns in the heartbeat. The run counts the
  records appended since the header was last written.
\<close>

fun heartbeat_run ::
  "(real \<Rightarrow> byte list) \<Rightarrow> (reb_simulation \<Rightarrow> byte list)
    \<Rightarrow> (timeval \<times> (reb_simulation \<Rightarrow> reb_simulation)) list
    \<Rightarrow> reb_simulation \<times> filesystem \<times> nat \<Rightarrow> reb_simulation \<times> filesystem \<times> nat" where
  "heartbeat_run enc hdr [] s = s"
| "heartbeat_run enc hdr ((now, step) # calls) (r, fs, K) =
     (let r1 = step r;
          (r2, fs2) = reb_simulationarchive_heartbeat enc hdr now r1 fs;
          K2 = (if t r1 = 0 then 0 else if simulationarchive_next r1 \<le> t r1 then Suc K else K)
      in heartbeat_run enc hdr calls (r2, fs2, K2))"

text \<open>\<open>steps_respect ok\<close>: every integration step of the run takes a simulation \<open>r\<close>
  to a simulation \<open>r'\<close> with \<open>ok r r'\<close>.\<close>

fun steps_respect ::
  "(reb_simulation \<Rightarrow> reb_simulation \<Rightarrow> bool) \<Rightarrow> (real \<Rightarrow> byte list)
    \<Rightarrow> (reb_simulation \<Rightarrow> byte list)
    \<Rightarrow> (timeval \<times> (reb_simulation \<Rightarrow> reb_simulation)) list
    \<Rightarrow> reb_simulation \<times> filesystem \<Rightarrow> bool" where
  "steps_respect ok enc hdr [] s = True"
| "steps_respect ok enc hdr ((now, step) # calls) (r, fs) =
     (ok r (step r) \<and>
      steps_respect ok enc hdr calls (reb_simulationarchive_heartbeat enc hdr now (step r) fs))"


subsection \<open>Example data\<close>

definition example_particle :: reb_particle where
  "example_particle = \<lparr>x = 1, y = 2, z = 3, vx = 4, vy = 5, vz = 6, m = 7\<rparr>"

definition empty_dp7 :: reb_dp7 where
  "empty_dp7 = \<lparr>p0 = [], p1 = [], p2 = [], p3 = [], p4 = [], p5 = [], p6 = []\<rparr>"

definition example_simulation :: reb_simulation where
  "example_simulation =
     \<lparr>t = 0, dt = 1 / 4, dt_last_done = 0, N = 2,
      integrator = REB_INTEGRATOR_WHFAST, gravity = REB_GRAVITY_BASIC,
      particles = [example_particle, example_particle],
      ri_whfast = \<lparr>safe_mode = 1, allocated_N = 0, p_j = [], eta = [], is_synchronized = 1\<rparr>,
      ri_ias15 = \<lparr>b = empty_dp7, csb = empty_dp7, e = empty_dp7, br = empty_dp7,
                  er = empty_dp7, csx = [], csv = []\<rparr>,
      simulationarchive_filename = ''archive.bin'',
      simulationarchive_interval = 1,
      simulationarchive_next = 0,
      simulationarchive_walltime = 0,
      simulationarchive_time = \<lparr>tv_sec = 0, tv_usec = 0\<rparr>,
      simulationarchive_seek_first = 0,
      simulationarchive_seek_blob = 0,
      messages = []\<rparr>"

definition zero_enc :: "real \<Rightarrow> byte list" where
  "zero_enc v = replicate 8 0"

definition short_header :: "reb_simulation \<Rightarrow> byte list" where
  "short_header r = [1, 2, 3]"

definition epoch :: timeval where
  "epoch = \<lparr>tv_sec = 0, tv_usec = 0\<rparr>"

definition set_t :: "real \<Rightarrow> reb_simulation \<Rightarrow> reb_simulation" where
  "set_t v r = r\<lparr>t := v\<rparr>"

definition big_simulation :: reb_simulation where
  "big_simulation =
     example_simulation\<lparr>t := 1, N := 38347922,
       particles := replicate 38347922 example_particle, simulationarchive_next := 1\<rparr>"



definition byte_dec :: "byte list \<Rightarrow> real" where
  "byte_dec bs = real_of_int (uint (hd bs))"

definition no_import :: "filesystem \<Rightarrow> string \<Rightarrow> reb_simulation \<Rightarrow> reb_simulation \<times> bool" where
  "no_import fs filename r = (r, False)"

definition header_simulation :: reb_simulation where
  "header_simulation =
     example_simulation\<lparr>simulationarchive_next := 1, simulationarchive_seek_first := 3,
       simulationarchive_seek_blob := 128\<rparr>"

definition later :: timeval where
  "later = \<lparr>tv_sec = 7, tv_usec = 0\<rparr>"

definition header_create :: "filesystem \<Rightarrow> string \<Rightarrow> reb_simulation option" where
  "header_create fs filename = Some header_simulation"




section \<open>Properties\<close>

lemma to_int_id: "- (2 ^ 31) \<le> v \<Longrightarrow> v < 2 ^ 31 \<Longrightarrow> to_int v = v"
  by (simp add: to_int_def)

lemma to_size_t_id: "0 \<le> v \<Longrightarrow> v < 2 ^ 64 \<Longrightarrow> to_size_t v = v"
  by (simp add: to_size_t_def)

subsection \<open>Frame of the writer\<close>





subsection \<open>The schedule of the heartbeat\<close>




subsection \<open>The first heartbeat\<close>




subsection \<open>The blob size\<close>

text \<open>
  Claim C10, as the code has it. For a particle count \<open>N \<ge> 0\<close> the calculator returns
  \<open>2\<close> scalars \<open>+ 7 N\<close> scalars for the symplectic kind and \<open>4\<close> scalars
  \<open>+ 5 7 3 N\<close> scalars \<open>+ 7 N\<close> scalars \<open>+ 2 3 N\<close> scalars for the adaptive
  high-order kind, in bytes, as long as that number is below \<open>2^31\<close>: the function
  returns an \<^verbatim>\<open>int\<close>. The simulation is left as it is.
\<close>

theorem blobsize_bytes:
  assumes "0 \<le> N r"
  shows "(integrator r = REB_INTEGRATOR_WHFAST \<longrightarrow>
            2 * sizeof_double + 7 * N r * sizeof_double < 2 ^ 31 \<longrightarrow>
            reb_simulationarchive_blobsize r = (2 * sizeof_double + 7 * N r * sizeof_double, r))
       \<and> (integrator r = REB_INTEGRATOR_IAS15 \<longrightarrow>
            4 * sizeof_double + 5 * 7 * 3 * N r * sizeof_double + 7 * N r * sizeof_double
              + 2 * 3 * N r * sizeof_double < 2 ^ 31 \<longrightarrow>
            reb_simulationarchive_blobsize r =
              (4 * sizeof_double + 5 * 7 * 3 * N r * sizeof_double + 7 * N r * sizeof_double
                + 2 * 3 * N r * sizeof_double, r))"
  using assms
  by (auto simp: reb_simulationarchive_blobsize_def sizeof_double_def to_int_id to_size_t_id)

theorem blobsize_bytes_witness:
  "reb_simulationarchive_blobsize example_simulation = (128, example_simulation)
   \<and> reb_simulationarchive_blobsize (example_simulation\<lparr>integrator := REB_INTEGRATOR_IAS15\<rparr>)
       = (1920, example_simulation\<lparr>integrator := REB_INTEGRATOR_IAS15\<rparr>)"
  using blobsize_bytes[of example_simulation]
    blobsize_bytes[of "example_simulation\<lparr>integrator := REB_INTEGRATOR_IAS15\<rparr>"]
  by (simp add: example_simulation_def sizeof_double_def)

text \<open>
  With 38347922 particles of the symplectic kind a record has \<open>2^31\<close> bytes, and the
  calculator returns \<open>- 2^31\<close>.
\<close>

theorem blobsize_int_counterexample:
  "fst (reb_simulationarchive_blobsize (example_simulation\<lparr>N := 38347922\<rparr>)) = - 2147483648
   \<and> 2 * sizeof_double + 7 * 38347922 * sizeof_double = 2147483648"
  by (simp add: reb_simulationarchive_blobsize_def example_simulation_def sizeof_double_def
      to_int_def to_size_t_def)

subsection \<open>The length of a record\<close>

lemma length_concat_map_const:
  "(\<And>v. length (f v) = k) \<Longrightarrow> length (concat (map f xs)) = k * length xs"
  by (induction xs) simp_all

lemma length_fwrite_doubles:
  "\<forall>v. length (enc v) = 8 \<Longrightarrow> length (fwrite_doubles enc arr n) = 8 * n"
  by (simp add: fwrite_doubles_def length_concat_map_const[where k = 8])

lemma length_reb_save_dp7:
  "\<forall>v. length (enc v) = 8 \<Longrightarrow> length (reb_save_dp7 enc d n) = 56 * n"
  by (simp add: reb_save_dp7_def length_fwrite_doubles)

lemma length_particle_bytes:
  "\<forall>v. length (enc v) = 8 \<Longrightarrow> length (particle_bytes enc parts ps i) = 56"
  by (simp add: particle_bytes_def)

lemma length_particles_bytes:
  "\<forall>v. length (enc v) = 8 \<Longrightarrow>
   length (concat (map (particle_bytes enc parts ps) [0..<n])) = 56 * n"
  by (simp add: length_concat_map_const[where k = 56] length_particle_bytes)

lemma length_heartbeat_payload:
  assumes "\<forall>v. length (enc v) = 8"
  shows "integrator r = REB_INTEGRATOR_WHFAST \<Longrightarrow>
           length (fst (heartbeat_payload enc r)) = 56 * nat (N r)"
    and "integrator r = REB_INTEGRATOR_IAS15 \<Longrightarrow>
           length (fst (heartbeat_payload enc r)) = 16 + 56 * nat (N r) + 296 * nat (N r * 3)"
    and "integrator r = REB_INTEGRATOR_OTHER k \<Longrightarrow> fst (heartbeat_payload enc r) = []"
  using assms
  by (simp_all add: heartbeat_payload_def Let_def length_particles_bytes length_reb_save_dp7
      length_fwrite_doubles)

text \<open>The bytes that a due call appends.\<close>

lemma heartbeat_running:
  assumes "t r \<noteq> 0"
  shows "simulationarchive_next r \<le> t r \<Longrightarrow>
      snd (reb_simulationarchive_heartbeat enc hdr now r fs) =
        fappend fs (simulationarchive_filename r)
          (enc (t r) @
           enc (simulationarchive_walltime (fst (reb_simulationarchive_heartbeat enc hdr now r fs))) @
           fst (heartbeat_payload enc r))"
    and "\<not> simulationarchive_next r \<le> t r \<Longrightarrow>
      reb_simulationarchive_heartbeat enc hdr now r fs = (r, fs)"
  using assms
  by (auto simp: reb_simulationarchive_heartbeat_def Let_def split_beta heartbeat_payload_def
      reb_error_def split: reb_integrator.splits)

lemma heartbeat_running_frame:
  assumes "t r \<noteq> 0"
  shows "N (fst (reb_simulationarchive_heartbeat enc hdr now r fs)) = N r"
    and "integrator (fst (reb_simulationarchive_heartbeat enc hdr now r fs)) = integrator r"
    and "simulationarchive_filename (fst (reb_simulationarchive_heartbeat enc hdr now r fs))
          = simulationarchive_filename r"
    and "simulationarchive_seek_first (fst (reb_simulationarchive_heartbeat enc hdr now r fs))
          = simulationarchive_seek_first r"
    and "simulationarchive_seek_blob (fst (reb_simulationarchive_heartbeat enc hdr now r fs))
          = simulationarchive_seek_blob r"
  using assms
  by (auto simp: reb_simulationarchive_heartbeat_def Let_def split_beta heartbeat_payload_def
      reb_error_def split: reb_integrator.splits)

lemma blobsize_depends:
  "N r' = N r \<Longrightarrow> integrator r' = integrator r \<Longrightarrow>
   fst (reb_simulationarchive_blobsize r') = fst (reb_simulationarchive_blobsize r)"
  by (simp add: reb_simulationarchive_blobsize_def split: reb_integrator.splits)

lemma blobsize_fits:
  assumes "record_fits r"
  shows "integrator r = REB_INTEGRATOR_WHFAST \<Longrightarrow>
           fst (reb_simulationarchive_blobsize r) = 16 + 56 * N r"
    and "integrator r = REB_INTEGRATOR_IAS15 \<Longrightarrow>
           fst (reb_simulationarchive_blobsize r) = 32 + 944 * N r"
  using assms
  by (simp_all add: record_fits_def reb_simulationarchive_blobsize_def sizeof_double_def
      to_int_id to_size_t_id)

text \<open>A due call appends a record whose length is the blob size.\<close>

lemma heartbeat_appends_blobsize:
  assumes enc: "\<forall>v. length (enc v) = 8"
    and run: "t r \<noteq> 0" "simulationarchive_next r \<le> t r"
    and fits: "record_fits r"
  shows "\<exists>rec. snd (reb_simulationarchive_heartbeat enc hdr now r fs)
                 = fappend fs (simulationarchive_filename r) rec
               \<and> int (length rec) = fst (reb_simulationarchive_blobsize r)"
proof -
  let ?rec = "enc (t r) @
       enc (simulationarchive_walltime (fst (reb_simulationarchive_heartbeat enc hdr now r fs))) @
       fst (heartbeat_payload enc r)"
  have "int (length ?rec) = fst (reb_simulationarchive_blobsize r)"
  proof (cases "integrator r")
    case REB_INTEGRATOR_WHFAST
    with fits show ?thesis
      by (simp add: enc length_heartbeat_payload(1)[OF enc] blobsize_fits(1) record_fits_def)
  next
    case REB_INTEGRATOR_IAS15
    with fits show ?thesis
      by (simp add: enc length_heartbeat_payload(2)[OF enc] blobsize_fits(2) record_fits_def)
  next
    case (REB_INTEGRATOR_OTHER k)
    with fits show ?thesis by (simp add: record_fits_def)
  qed
  with heartbeat_running(1)[OF run] show ?thesis by blast
qed

lemma heartbeat_run_layout:
  assumes enc: "\<forall>v. length (enc v) = 8"
  shows "fs (simulationarchive_filename r) = Some (h @ concat recs) \<Longrightarrow>
    length recs = K \<Longrightarrow>
    \<forall>rec\<in>set recs. int (length rec) = simulationarchive_seek_blob r \<Longrightarrow>
    simulationarchive_seek_blob r = fst (reb_simulationarchive_blobsize r) \<Longrightarrow>
    record_fits r \<Longrightarrow>
    steps_respect archive_step enc hdr calls (r, fs) \<Longrightarrow>
    heartbeat_run enc hdr calls (r, fs, K) = (r', fs', K') \<Longrightarrow>
    \<exists>recs'. fs' (simulationarchive_filename r) = Some (h @ concat recs') \<and>
            length recs' = K' \<and>
            (\<forall>rec\<in>set recs'. int (length rec) = simulationarchive_seek_blob r) \<and>
            simulationarchive_seek_blob r' = simulationarchive_seek_blob r \<and>
            simulationarchive_seek_first r' = simulationarchive_seek_first r \<and>
            simulationarchive_filename r' = simulationarchive_filename r \<and>
            N r' = N r \<and> integrator r' = integrator r"
proof (induction calls arbitrary: r fs K recs)
  case Nil
  then show ?case by auto
next
  case (Cons c calls)
  obtain now step where c: "c = (now, step)" by (cases c)
  let ?r1 = "step r"
  obtain r2 fs2 where hb: "reb_simulationarchive_heartbeat enc hdr now ?r1 fs = (r2, fs2)"
    by (cases "reb_simulationarchive_heartbeat enc hdr now ?r1 fs")
  from Cons.prems c hb have ok: "archive_step r ?r1"
    and rest: "steps_respect archive_step enc hdr calls (r2, fs2)"
    by simp_all
  from ok have t1: "t ?r1 \<noteq> 0" and same: "N ?r1 = N r" "integrator ?r1 = integrator r"
      "simulationarchive_filename ?r1 = simulationarchive_filename r"
      "simulationarchive_seek_first ?r1 = simulationarchive_seek_first r"
      "simulationarchive_seek_blob ?r1 = simulationarchive_seek_blob r"
    by (simp_all add: archive_step_def)
  have fr: "N r2 = N r" "integrator r2 = integrator r"
      "simulationarchive_filename r2 = simulationarchive_filename r"
      "simulationarchive_seek_first r2 = simulationarchive_seek_first r"
      "simulationarchive_seek_blob r2 = simulationarchive_seek_blob r"
    using heartbeat_running_frame[OF t1, where enc = enc and hdr = hdr and now = now and fs = fs] same by (simp_all add: hb)
  have fits1: "record_fits ?r1"
    using Cons.prems(5) same by (simp add: record_fits_def)
  have fits2: "record_fits r2"
    using Cons.prems(5) fr by (simp add: record_fits_def)
  have blob1: "fst (reb_simulationarchive_blobsize ?r1) = simulationarchive_seek_blob r"
    using blobsize_depends[OF same(1,2)] Cons.prems(4) by simp
  have blob2: "simulationarchive_seek_blob r2 = fst (reb_simulationarchive_blobsize r2)"
    using blobsize_depends[OF fr(1,2)] Cons.prems(4) fr(5) by simp
  let ?K2 = "if simulationarchive_next ?r1 \<le> t ?r1 then Suc K else K"
  have run2: "heartbeat_run enc hdr calls (r2, fs2, ?K2) = (r', fs', K')"
    using Cons.prems(7) by (simp add: c hb Let_def t1)
  have "\<exists>recs2. fs2 (simulationarchive_filename r2) = Some (h @ concat recs2) \<and>
          length recs2 = ?K2 \<and>
          (\<forall>rec\<in>set recs2. int (length rec) = simulationarchive_seek_blob r2)"
  proof (cases "simulationarchive_next ?r1 \<le> t ?r1")
    case True
    from heartbeat_appends_blobsize[OF enc t1 True fits1, where hdr = hdr and now = now and fs = fs]
    obtain rec where "fs2 = fappend fs (simulationarchive_filename ?r1) rec"
      and len: "int (length rec) = fst (reb_simulationarchive_blobsize ?r1)"
      by (auto simp: hb)
    then have "fs2 (simulationarchive_filename r2) = Some (h @ concat (recs @ [rec]))"
      using Cons.prems(1) same(3) fr(3) by (simp add: fappend_def)
    moreover have "\<forall>q\<in>set (recs @ [rec]). int (length q) = simulationarchive_seek_blob r2"
      using Cons.prems(3) len blob1 fr(5) by auto
    ultimately show ?thesis
      using True Cons.prems(2) by (intro exI[of _ "recs @ [rec]"]) simp
  next
    case False
    with heartbeat_running(2)[OF t1 False, where enc = enc and hdr = hdr and now = now and fs = fs] hb
    have "r2 = ?r1" "fs2 = fs" by simp_all
    then show ?thesis
      using False Cons.prems(1,2,3) same by (intro exI[of _ recs]) simp
  qed
  then obtain recs2 where inv2: "fs2 (simulationarchive_filename r2) = Some (h @ concat recs2)"
      "length recs2 = ?K2" "\<forall>rec\<in>set recs2. int (length rec) = simulationarchive_seek_blob r2"
    by blast
  from Cons.IH[OF inv2 blob2 fits2 rest run2]
  show ?case by (simp add: fr)
qed

lemma heartbeat_at_zero:
  assumes "t r = 0"
  shows "(case reb_simulationarchive_heartbeat enc hdr now r fs of (r', fs') \<Rightarrow>
     simulationarchive_seek_blob r' = fst (reb_simulationarchive_blobsize r) \<and>
     simulationarchive_next r' = simulationarchive_next r + simulationarchive_interval r \<and>
     simulationarchive_walltime r' = 0 \<and>
     simulationarchive_time r' = now \<and>
     fs' = fs(simulationarchive_filename r \<mapsto>
              hdr (r'\<lparr>simulationarchive_seek_first := simulationarchive_seek_first r\<rparr>)) \<and>
     simulationarchive_seek_first r' =
       int (length (hdr (r'\<lparr>simulationarchive_seek_first := simulationarchive_seek_first r\<rparr>))) \<and>
     N r' = N r \<and> integrator r' = integrator r \<and>
     simulationarchive_filename r' = simulationarchive_filename r \<and>
     messages r' = messages r
       @ (case integrator r of REB_INTEGRATOR_OTHER k \<Rightarrow>
            [(REB_MESSAGE_ERROR, ''Simulation archive not implemented for this integrator.'')]
          | _ \<Rightarrow> [])
       @ (case gravity r of REB_GRAVITY_OTHER g \<Rightarrow>
            [(REB_MESSAGE_ERROR, ''Simulation archive not implemented for this gravity module.'')]
          | _ \<Rightarrow> []))"
  using assms
  by (auto simp: reb_simulationarchive_heartbeat_def reb_output_binary_def Let_def reb_error_def
      reb_simulationarchive_blobsize_def split_beta
      split: reb_gravity.splits reb_integrator.splits)

lemma length_concat_uniform:
  "\<forall>rec\<in>set recs. int (length rec) = k \<Longrightarrow> int (length (concat recs)) = int (length recs) * k"
  by (induction recs) (simp_all add: algebra_simps)

text \<open>
  Claim C6, as the code has it. Take a simulation of a supported kind whose record has
  fewer than \<open>2^31\<close> bytes, the heartbeat at \<open>t = 0\<close>, and then any run whose steps keep
  the kind, the particle count and the archive's file name and offsets. After the run
  the file is the header followed by the \<open>K\<close> records appended; each of them has
  exactly as many bytes as the blob size calculator returns, which is \<open>seek_blob\<close>;
  the header has \<open>seek_first\<close> bytes; and the file has \<open>seek_first + K seek_blob\<close>
  bytes.
\<close>

theorem archive_layout:
  assumes enc: "\<forall>v. length (enc v) = 8"
    and first: "t r0 = 0" "record_fits r0"
    and hb: "reb_simulationarchive_heartbeat enc hdr now r0 fs0 = (r1, fs1)"
    and steps: "steps_respect archive_step enc hdr calls (r1, fs1)"
    and run: "heartbeat_run enc hdr calls (r1, fs1, 0) = (r', fs', K)"
  shows "\<exists>h recs. fs' (simulationarchive_filename r0) = Some (h @ concat recs) \<and>
      int (length h) = simulationarchive_seek_first r' \<and> length recs = K \<and>
      (\<forall>rec\<in>set recs. int (length rec) = fst (reb_simulationarchive_blobsize r')) \<and>
      simulationarchive_seek_blob r' = fst (reb_simulationarchive_blobsize r') \<and>
      int (length (h @ concat recs)) =
        simulationarchive_seek_first r' + int K * simulationarchive_seek_blob r'"
proof -
  let ?h = "hdr (r1\<lparr>simulationarchive_seek_first := simulationarchive_seek_first r0\<rparr>)"
  from heartbeat_at_zero[OF first(1), where enc = enc and hdr = hdr and now = now and fs = fs0] hb
  have one: "simulationarchive_seek_blob r1 = fst (reb_simulationarchive_blobsize r0)"
      "fs1 = fs0(simulationarchive_filename r0 \<mapsto> ?h)"
      "simulationarchive_seek_first r1 = int (length ?h)"
      "N r1 = N r0" "integrator r1 = integrator r0"
      "simulationarchive_filename r1 = simulationarchive_filename r0"
    by simp_all
  have file1: "fs1 (simulationarchive_filename r1) = Some (?h @ concat [])"
    using one by simp
  have blob1: "simulationarchive_seek_blob r1 = fst (reb_simulationarchive_blobsize r1)"
    using one blobsize_depends[OF one(4,5)] by simp
  have fits1: "record_fits r1"
    using first(2) one by (simp add: record_fits_def)
  from heartbeat_run_layout[OF enc file1 _ _ blob1 fits1 steps run]
  obtain recs where recs: "fs' (simulationarchive_filename r1) = Some (?h @ concat recs)"
      "length recs = K" "\<forall>rec\<in>set recs. int (length rec) = simulationarchive_seek_blob r1"
      "simulationarchive_seek_blob r' = simulationarchive_seek_blob r1"
      "simulationarchive_seek_first r' = simulationarchive_seek_first r1"
      "N r' = N r1" "integrator r' = integrator r1"
    by auto
  have blob': "simulationarchive_seek_blob r' = fst (reb_simulationarchive_blobsize r')"
    using recs(4) blob1 blobsize_depends[OF recs(6,7)] by simp
  have "int (length (?h @ concat recs)) =
      simulationarchive_seek_first r' + int K * simulationarchive_seek_blob r'"
    using length_concat_uniform[OF recs(3)] recs(2,4,5) one(3) by simp
  with recs blob' one show ?thesis
    by (intro exI[of _ ?h] exI[of _ recs]) simp
qed

theorem archive_layout_witness:
  "\<exists>h recs.
     fst (snd (heartbeat_run zero_enc short_header [(epoch, set_t (1/2)), (epoch, set_t (3/2))]
       (fst (reb_simulationarchive_heartbeat zero_enc short_header epoch example_simulation Map.empty),
        snd (reb_simulationarchive_heartbeat zero_enc short_header epoch example_simulation Map.empty),
        0))) (simulationarchive_filename example_simulation) = Some (h @ concat recs) \<and>
     int (length h) = 3 \<and> length recs = 1 \<and> (\<forall>rec\<in>set recs. int (length rec) = 128) \<and>
     int (length (h @ concat recs)) = 3 + 1 * 128"
proof -
  let ?hb = "reb_simulationarchive_heartbeat zero_enc short_header epoch example_simulation Map.empty"
  let ?run = "heartbeat_run zero_enc short_header [(epoch, set_t (1/2)), (epoch, set_t (3/2))]
       (fst ?hb, snd ?hb, 0)"
  have hb: "?hb = (example_simulation\<lparr>simulationarchive_seek_blob := 128,
       simulationarchive_next := 1, simulationarchive_seek_first := 3\<rparr>,
       [''archive.bin'' \<mapsto> [1, 2, 3]])"
    by (simp add: example_simulation_def reb_simulationarchive_heartbeat_def Let_def epoch_def
     reb_output_binary_def reb_simulationarchive_blobsize_def short_header_def sizeof_double_def
     to_int_def to_size_t_def)
  have vals: "simulationarchive_seek_first (fst ?run) = 3" "snd (snd ?run) = 1"
    "fst (reb_simulationarchive_blobsize (fst ?run)) = 128"
    "simulationarchive_seek_blob (fst ?run) = 128"
    by (simp_all add: hb) (simp_all add: example_simulation_def set_t_def
      reb_simulationarchive_heartbeat_def heartbeat_payload_def Let_def
      reb_simulationarchive_blobsize_def sizeof_double_def to_int_def to_size_t_def)
  have "\<forall>v. length (zero_enc v) = 8" by (simp add: zero_enc_def)
  moreover have "t example_simulation = 0" "record_fits example_simulation"
    by (simp_all add: example_simulation_def record_fits_def)
  moreover have "?hb = (fst ?hb, snd ?hb)" by simp
  moreover have "steps_respect archive_step zero_enc short_header
      [(epoch, set_t (1/2)), (epoch, set_t (3/2))] (fst ?hb, snd ?hb)"
    by (simp add: hb) (simp add: example_simulation_def set_t_def archive_step_def
      arrays_allocated_def reb_simulationarchive_heartbeat_def heartbeat_payload_def Let_def)
  moreover have "?run = (fst ?run, fst (snd ?run), snd (snd ?run))" by simp
  ultimately show ?thesis
    using archive_layout[where enc = zero_enc and hdr = short_header and now = epoch
        and ?r0.0 = example_simulation and ?fs0.0 = Map.empty and ?r1.0 = "fst ?hb"
        and ?fs1.0 = "snd ?hb" and calls = "[(epoch, set_t (1/2)), (epoch, set_t (3/2))]"
        and r' = "fst ?run" and fs' = "fst (snd ?run)" and K = "snd (snd ?run)"]
    unfolding vals by simp
qed

text \<open>
  With 38347922 particles of the symplectic kind the record that a due call appends has
  \<open>2^31\<close> bytes, and the blob size calculator returns \<open>- 2^31\<close>.
\<close>

theorem record_length_int_counterexample:
  "map_option length
     (snd (reb_simulationarchive_heartbeat zero_enc short_header epoch big_simulation
            [''archive.bin'' \<mapsto> []]) ''archive.bin'') = Some 2147483648
   \<and> fst (reb_simulationarchive_blobsize big_simulation) = - 2147483648"
proof -
  have enc: "\<forall>v. length (zero_enc v) = 8" by (simp add: zero_enc_def)
  have run: "t big_simulation \<noteq> 0" "simulationarchive_next big_simulation \<le> t big_simulation"
    and kind: "integrator big_simulation = REB_INTEGRATOR_WHFAST"
    and name: "simulationarchive_filename big_simulation = ''archive.bin''"
    and n: "N big_simulation = 38347922"
    by (simp_all add: big_simulation_def example_simulation_def)
  have "fst (reb_simulationarchive_blobsize big_simulation) = - 2147483648"
    by (simp add: reb_simulationarchive_blobsize_def kind n sizeof_double_def to_int_def
        to_size_t_def)
  moreover have "map_option length
     (snd (reb_simulationarchive_heartbeat zero_enc short_header epoch big_simulation
            [''archive.bin'' \<mapsto> []]) ''archive.bin'') = Some 2147483648"
    unfolding heartbeat_running(1)[OF run]
    by (simp add: fappend_def name enc length_heartbeat_payload(1)[OF enc kind] n)
  ultimately show ?thesis by simp
qed

subsection \<open>Unsupported configurations on the write path\<close>




subsection \<open>Frame of the loader\<close>










lemma fread_into_eof: "fread_into dec store (r, []) = (r, [])"
  by (simp add: fread_double_def)

lemma read_particle_eof: "read_particle dec ps i (r, []) = (r, [])"
  by (simp add: read_particle_def fread_double_def)

lemma fold_read_particle_eof: "fold (read_particle dec ps) idxs (r, []) = (r, [])"
  by (induction idxs) (simp_all add: read_particle_eof)

lemma load_blob_payload_eof:
  "integrator r = REB_INTEGRATOR_WHFAST \<Longrightarrow> safe_mode (ri_whfast r) \<noteq> 0 \<Longrightarrow>
   load_blob_payload dec r [] = r"
  by (simp add: load_blob_payload_def fold_read_particle_eof)


lemma load_blob_failed_seek:
  assumes "fs filename = Some file" "blob \<noteq> 0" "load_blob_seek r file blob = None"
  shows "reb_simulationarchive_load_blob dec importer now fs (Some r) filename blob
     = Some (- 3, Some r)"
  using assms by (simp add: reb_simulationarchive_load_blob_def)

subsection \<open>The schedule after a load\<close>




subsection \<open>Loading beyond the last record\<close>

text \<open>
  Claim C2 requires a load with an index beyond the last record to fail with the code of
  a corrupt archive and to leave the simulation as it was. When the seek fails the
  loader does so (\<open>load_blob_failed_seek\<close>), but \<^verbatim>\<open>fseek\<close> to a position beyond
  the end of the file works. On an archive of a 3-byte header and no record, index 2
  is sought at byte 131; every read finds the end of the file, the loader returns 0 and
  has overwritten the wall-clock timestamp.
\<close>

theorem load_blob_beyond_last_record:
  "reb_simulationarchive_load_blob byte_dec no_import later [''archive.bin'' \<mapsto> [1, 2, 3]]
     (Some header_simulation) ''archive.bin'' 2
   = Some (0, Some (header_simulation\<lparr>simulationarchive_time := later\<rparr>))"
proof -
  have h: "t header_simulation = 0" "simulationarchive_next header_simulation = 1"
      "simulationarchive_interval header_simulation = 1"
      "integrator header_simulation = REB_INTEGRATOR_WHFAST"
      "safe_mode (ri_whfast header_simulation) = 1"
    by (simp_all add: header_simulation_def example_simulation_def)
  have seek: "load_blob_seek header_simulation [1, 2, 3] 2 = Some 131"
    by (simp add: load_blob_seek_def fseek_def header_simulation_def)
  have loop: "catch_up_next 1 0 1 = Some 1"
    by (simp add: catch_up_next.simps)
  have same: "header_simulation\<lparr>simulationarchive_time := later, simulationarchive_next := 1\<rparr>
      = header_simulation\<lparr>simulationarchive_time := later\<rparr>"
    by (simp add: header_simulation_def)
  have "load_blob_read byte_dec later header_simulation []
      = Some (header_simulation\<lparr>simulationarchive_time := later\<rparr>)"
    by (simp add: load_blob_read_def fread_double_def h loop same load_blob_payload_eof)
  with seek show ?thesis
    by (simp add: reb_simulationarchive_load_blob_def)
qed

subsection \<open>Restart\<close>

text \<open>
  Claim C3, as the code has it. When the file is missing or the import of the header
  yields no simulation, restart returns a null pointer. When the load of the latest
  record fails (the file is shorter than one record, so the seek fails), restart
  reports "Cannot read binary file." on the simulation and returns the simulation
  that the import of the header has built.
\<close>

theorem restart_failures:
  "(fs filename = None \<longrightarrow>
      reb_simulationarchive_restart dec importer create now fs filename = Some None)
   \<and> (create fs filename = None \<longrightarrow>
      reb_simulationarchive_restart dec importer create now fs filename = Some None)
   \<and> (fs filename = Some file \<and> create fs filename = Some r \<and>
       int (length file) < simulationarchive_seek_blob r \<longrightarrow>
      reb_simulationarchive_load_blob dec importer now fs (Some r) filename (- 1)
        = Some (- 3, Some r) \<and>
      reb_simulationarchive_restart dec importer create now fs filename
        = Some (Some (reb_error r ''Cannot read binary file.'')))"
  by (auto simp: reb_simulationarchive_restart_def reb_simulationarchive_load_blob_def
      load_blob_seek_def fseek_def split: option.splits)

theorem restart_failures_witness:
  "reb_simulationarchive_restart byte_dec no_import header_create epoch Map.empty ''archive.bin''
     = Some None
   \<and> reb_simulationarchive_restart byte_dec no_import (\<lambda>fs filename. None) epoch
       [''archive.bin'' \<mapsto> [1, 2, 3]] ''archive.bin'' = Some None
   \<and> reb_simulationarchive_restart byte_dec no_import header_create epoch
       [''archive.bin'' \<mapsto> [1, 2, 3]] ''archive.bin''
     = Some (Some (reb_error header_simulation ''Cannot read binary file.''))"
  using restart_failures[where fs = Map.empty and filename = "''archive.bin''" and dec = byte_dec
      and importer = no_import and create = header_create and now = epoch]
    restart_failures[where fs = "[''archive.bin'' \<mapsto> [1, 2, 3]]" and filename = "''archive.bin''"
      and dec = byte_dec and importer = no_import and create = "\<lambda>fs filename. None" and now = epoch]
    restart_failures[where fs = "[''archive.bin'' \<mapsto> [1, 2, 3]]" and filename = "''archive.bin''"
      and dec = byte_dec and importer = no_import and create = header_create and now = epoch
      and ?file = "[1, 2, 3]" and r = header_simulation]
  by (simp add: header_create_def header_simulation_def)

text \<open>
  A file of 3 bytes and a header with \<open>seek_blob = 128\<close>: the load of the latest record
  returns \<open>- 3\<close>, and restart returns the simulation with the message.
\<close>

theorem restart_returns_state_counterexample:
  "reb_simulationarchive_load_blob byte_dec no_import epoch [''archive.bin'' \<mapsto> [1, 2, 3]]
     (Some header_simulation) ''archive.bin'' (- 1) = Some (- 3, Some header_simulation)
   \<and> reb_simulationarchive_restart byte_dec no_import header_create epoch
       [''archive.bin'' \<mapsto> [1, 2, 3]] ''archive.bin''
     = Some (Some (header_simulation\<lparr>messages := [(REB_MESSAGE_ERROR, ''Cannot read binary file.'')]\<rparr>))"
  by (simp add: reb_simulationarchive_restart_def reb_simulationarchive_load_blob_def
      load_blob_seek_def fseek_def header_create_def reb_error_def)
    (simp add: header_simulation_def example_simulation_def)

subsection \<open>Where the loader seeks\<close>









subsection \<open>The Jacobi masses after a load\<close>











end
